theory Spec2Isabelle
  imports Main
begin

section \<open>Field reduction\<close>

text \<open>
  \<^verbatim>\<open>STARKNET_FELT_MAX = 2**251 + 17 * 2**192 + 1\<close> and
  \<^verbatim>\<open>BN254_PRIME\<close> are module constants of \<^verbatim>\<open>scripts/convert_garaga.py\<close>.
  Python integers are unbounded, so they are modelled as \<^typ>\<open>int\<close>. The modulus is
  positive, and for a positive modulus Python's \<^verbatim>\<open>%\<close> is the floored remainder,
  which is \<open>mod\<close> on \<^typ>\<open>int\<close>.
\<close>

definition STARKNET_FELT_MAX :: int where
  "STARKNET_FELT_MAX = 2 ^ 251 + 17 * 2 ^ 192 + 1"

definition BN254_PRIME :: int where
  "BN254_PRIME = 21888242871839275222246405745257275088548364400416034343698204186575808495617"

definition apply_felt_modulo :: "int \<Rightarrow> int" where
  "apply_felt_modulo v = (if v < STARKNET_FELT_MAX then v else v mod STARKNET_FELT_MAX)"

section \<open>Python built-ins used by the script\<close>

subsection \<open>Integers to text: \<^verbatim>\<open>str\<close> and \<^verbatim>\<open>hex\<close>\<close>

text \<open>
  Strings are \<^typ>\<open>string\<close>, lists of 8-bit characters; the script only ever builds
  ASCII text, and input text outside ASCII is not modelled. \<open>digit_char\<close> is the digit
  alphabet \<^verbatim>\<open>0-9a-z\<close> of \<^verbatim>\<open>str\<close> and \<^verbatim>\<open>hex\<close>, and \<open>digit_value\<close> the table
  CPython's \<^verbatim>\<open>int\<close> reads digits with (letters of either case count from ten).
  Conversion between integers and text is modelled for integers of any size: the
  configurable limit on the number of decimal digits of recent interpreters is left out.
\<close>

definition digit_char :: "nat \<Rightarrow> char" where
  "digit_char d = (if d < 10 then char_of (48 + d) else char_of (87 + d))"

definition digit_value :: "char \<Rightarrow> nat option" where
  "digit_value c =
     (let k = (of_char c :: nat) in
      if 48 \<le> k \<and> k \<le> 57 then Some (k - 48)
      else if 97 \<le> k \<and> k \<le> 122 then Some (k - 87)
      else if 65 \<le> k \<and> k \<le> 90 then Some (k - 55)
      else None)"

function to_digits :: "nat \<Rightarrow> nat \<Rightarrow> string" where
  "to_digits b n =
     (if n < b \<or> b < 2 then [digit_char n]
      else to_digits b (n div b) @ [digit_char (n mod b)])"
  by pat_completeness auto
termination
  by (relation "measure snd") auto

declare to_digits.simps [simp del]

definition py_str :: "int \<Rightarrow> string" where
  "py_str n = (if n < 0 then CHR ''-'' # to_digits 10 (nat (- n)) else to_digits 10 (nat n))"

definition py_hex :: "int \<Rightarrow> string" where
  "py_hex n = (if n < 0 then ''-0x'' @ to_digits 16 (nat (- n)) else ''0x'' @ to_digits 16 (nat n))"

subsection \<open>Text to integers: \<^verbatim>\<open>int(s)\<close> and \<^verbatim>\<open>int(s, 16)\<close>\<close>

text \<open>
  \<^verbatim>\<open>int\<close> on a string removes surrounding whitespace, reads an optional sign, for base
  16 skips an optional \<^verbatim>\<open>0x\<close>/\<^verbatim>\<open>0X\<close> prefix (one underscore may follow it), and then
  wants a non-empty run of digits of the base in which single underscores may separate
  digits. \<open>None\<close> stands for the \<^verbatim>\<open>ValueError\<close> "invalid literal".
\<close>

definition py_isspace :: "char \<Rightarrow> bool" where
  "py_isspace c = ((of_char c :: nat) \<in> {9, 10, 11, 12, 13, 28, 29, 30, 31, 32, 133, 160})"

definition strip :: "string \<Rightarrow> string" where
  "strip s = rev (dropWhile py_isspace (rev (dropWhile py_isspace s)))"

fun scan_digits :: "nat \<Rightarrow> nat \<Rightarrow> bool \<Rightarrow> string \<Rightarrow> nat option" where
  "scan_digits b acc prev_us [] = (if prev_us then None else Some acc)"
| "scan_digits b acc prev_us (c # cs) =
     (if c = CHR ''_'' then (if prev_us then None else scan_digits b acc True cs)
      else (case digit_value c of
              None \<Rightarrow> None
            | Some d \<Rightarrow> if d < b then scan_digits b (acc * b + d) False cs else None))"

definition parse_digits :: "nat \<Rightarrow> string \<Rightarrow> nat option" where
  "parse_digits b s =
     (case s of [] \<Rightarrow> None
      | c # cs \<Rightarrow> if c = CHR ''_'' then None else scan_digits b 0 False s)"

definition skip_base_prefix :: "nat \<Rightarrow> string \<Rightarrow> string" where
  "skip_base_prefix b s =
     (case s of
        c0 # c1 # rest \<Rightarrow>
          if b = 16 \<and> c0 = CHR ''0'' \<and> (c1 = CHR ''x'' \<or> c1 = CHR ''X'')
          then (case rest of u # r \<Rightarrow> if u = CHR ''_'' then r else rest | [] \<Rightarrow> rest)
          else s
      | _ \<Rightarrow> s)"

definition int_of_string :: "nat \<Rightarrow> string \<Rightarrow> int option" where
  "int_of_string b s =
     (case strip s of
        [] \<Rightarrow> None
      | c # cs \<Rightarrow>
          if c = CHR ''-'' then map_option (\<lambda>n. - int n) (parse_digits b (skip_base_prefix b cs))
          else if c = CHR ''+'' then map_option int (parse_digits b (skip_base_prefix b cs))
          else map_option int (parse_digits b (skip_base_prefix b (c # cs))))"

subsection \<open>JSON values and exceptions\<close>

text \<open>
  \<^verbatim>\<open>json.load\<close> yields \<^verbatim>\<open>None\<close>, booleans, integers, floats, strings, lists and
  dictionaries with string keys. A finite float is \<open>m * 2 ^ e\<close> for integers \<open>m\<close> and
  \<open>e\<close>; \<^verbatim>\<open>int\<close> truncates it towards zero. A dictionary is the list of its items, with
  distinct keys, read with \<open>map_of\<close>.
\<close>

datatype pyfloat = Finite int int | Infinite | NaN

datatype json =
    JNull
  | JBool bool
  | JInt int
  | JFloat pyfloat
  | JStr string
  | JArr "json list"
  | JObj "(string \<times> json) list"

datatype key = Name string | Index nat

text \<open>
  Every error the script raises itself is a \<^verbatim>\<open>ValueError\<close>; what tells one from
  another is the message. The messages are kept as structured values: \<open>Expected_groth16 v\<close>
  is \<^verbatim>\<open>"Expected groth16 protocol, got {v}"\<close>, \<open>Missing_required_field k\<close> is
  \<^verbatim>\<open>"Missing required field in proof: {e}"\<close> for the \<^verbatim>\<open>KeyError\<close> \<open>e\<close> with key
  \<open>k\<close>, \<open>Failed_to_convert e\<close> is \<^verbatim>\<open>"Failed to convert proof: {str(e)}"\<close> and
  \<open>Failed_to_generate_calldata e\<close> is \<^verbatim>\<open>"Failed to generate calldata: {str(e)}"\<close>.
\<close>

datatype exn =
    KeyError key
  | IndexError
  | TypeError
  | AttributeError
  | OverflowError
  | OSError
  | JSONDecodeError
  | ValueError reason
and reason =
    Invalid_literal nat string
  | Cannot_convert_NaN
  | Expected_groth16 json
  | Missing_required_field key
  | Failed_to_convert exn
  | Failed_to_generate_calldata exn

definition try_then :: "exn + 'a \<Rightarrow> ('a \<Rightarrow> exn + 'b) \<Rightarrow> exn + 'b" where
  "try_then r f = (case r of Inl e \<Rightarrow> Inl e | Inr v \<Rightarrow> f v)"

text \<open>
  Subscripting \<^verbatim>\<open>v[k]\<close>: a dictionary raises \<^verbatim>\<open>KeyError\<close> for a key it does not
  hold (an integer is never a key of a loaded dictionary), a list or a string raises
  \<^verbatim>\<open>IndexError\<close> out of range and \<^verbatim>\<open>TypeError\<close> for a string index, and nothing else
  can be subscripted. The script subscripts with the constants \<^verbatim>\<open>0\<close> and \<^verbatim>\<open>1\<close> only.
\<close>

fun getitem :: "json \<Rightarrow> key \<Rightarrow> exn + json" where
  "getitem (JObj kvs) (Name k) =
     (case map_of kvs k of None \<Rightarrow> Inl (KeyError (Name k)) | Some v \<Rightarrow> Inr v)"
| "getitem (JObj kvs) (Index i) = Inl (KeyError (Index i))"
| "getitem (JArr xs) (Index i) = (if i < length xs then Inr (xs ! i) else Inl IndexError)"
| "getitem (JArr xs) (Name k) = Inl TypeError"
| "getitem (JStr s) (Index i) = (if i < length s then Inr (JStr [s ! i]) else Inl IndexError)"
| "getitem (JStr s) (Name k) = Inl TypeError"
| "getitem _ _ = Inl TypeError"

definition dict_get :: "json \<Rightarrow> string \<Rightarrow> exn + json" where
  "dict_get d k =
     (case d of
        JObj kvs \<Rightarrow> Inr (case map_of kvs k of None \<Rightarrow> JNull | Some v \<Rightarrow> v)
      | _ \<Rightarrow> Inl AttributeError)"

definition float_trunc :: "int \<Rightarrow> int \<Rightarrow> int" where
  "float_trunc m e =
     (if 0 \<le> e then m * 2 ^ nat e
      else if 0 \<le> m then m div 2 ^ nat (- e)
      else - ((- m) div 2 ^ nat (- e)))"

fun py_int :: "json \<Rightarrow> exn + int" where
  "py_int (JInt n) = Inr n"
| "py_int (JBool b) = Inr (if b then 1 else 0)"
| "py_int (JFloat (Finite m e)) = Inr (float_trunc m e)"
| "py_int (JFloat Infinite) = Inl OverflowError"
| "py_int (JFloat NaN) = Inl (ValueError Cannot_convert_NaN)"
| "py_int (JStr s) =
     (case int_of_string 10 s of
        None \<Rightarrow> Inl (ValueError (Invalid_literal 10 s))
      | Some n \<Rightarrow> Inr n)"
| "py_int _ = Inl TypeError"

fun py_int_base :: "json \<Rightarrow> nat \<Rightarrow> exn + int" where
  "py_int_base (JStr s) b =
     (case int_of_string b s of
        None \<Rightarrow> Inl (ValueError (Invalid_literal b s))
      | Some n \<Rightarrow> Inr n)"
| "py_int_base _ b = Inl TypeError"

section \<open>The converter\<close>

subsection \<open>\<^verbatim>\<open>convert_proof_to_garaga\<close>\<close>

text \<open>
  Lines printed to standard error, one constructor per \<^verbatim>\<open>print(..., file=sys.stderr)\<close>
  of the script; \<open>Error e\<close> and \<open>Traceback e\<close> are the two reports of \<^verbatim>\<open>main\<close>'s
  exception handler.
\<close>

datatype line =
    Usage
  | File_not_found string
  | Applying_felt252_modulo
  | Applied_modulo string int int
  | Value_OK string
  | Garaga_proof_saved string
  | Generating_calldata
  | Error exn
  | Traceback exn

text \<open>The eight local variables \<^verbatim>\<open>a_x\<close>, ..., \<^verbatim>\<open>c_y\<close> of the function.\<close>

record coordinates =
  a_x :: int
  a_y :: int
  b_x0 :: int
  b_x1 :: int
  b_y0 :: int
  b_y1 :: int
  c_x :: int
  c_y :: int

text \<open>
  \<^verbatim>\<open>int(v[i])\<close> and \<^verbatim>\<open>int(v[i][j])\<close>. For \<^verbatim>\<open>pi_a\<close> and \<^verbatim>\<open>pi_c\<close> the script writes
  \<^verbatim>\<open>int(v[i]) if isinstance(v[i], (int, str)) else int(v[i])\<close>, whose two branches are
  the same call.
\<close>

definition int_item :: "json \<Rightarrow> nat \<Rightarrow> exn + int" where
  "int_item v i = try_then (getitem v (Index i)) py_int"

definition int_item2 :: "json \<Rightarrow> nat \<Rightarrow> nat \<Rightarrow> exn + int" where
  "int_item2 v i j = try_then (getitem v (Index i)) (\<lambda>row. int_item row j)"

text \<open>Lines 35 to 55: the protocol check and the extraction of the coordinates.\<close>

definition parse_proof :: "json \<Rightarrow> exn + coordinates" where
  "parse_proof proof_data =
     try_then (dict_get proof_data ''protocol'') (\<lambda>protocol.
     if protocol \<noteq> JStr ''groth16'' then Inl (ValueError (Expected_groth16 protocol))
     else
     try_then (getitem proof_data (Name ''pi_a'')) (\<lambda>pi_a.
     try_then (int_item pi_a 0) (\<lambda>ax.
     try_then (int_item pi_a 1) (\<lambda>ay.
     try_then (getitem proof_data (Name ''pi_b'')) (\<lambda>pi_b.
     try_then (int_item2 pi_b 0 1) (\<lambda>bx0.
     try_then (int_item2 pi_b 0 0) (\<lambda>bx1.
     try_then (int_item2 pi_b 1 1) (\<lambda>by0.
     try_then (int_item2 pi_b 1 0) (\<lambda>by1.
     try_then (getitem proof_data (Name ''pi_c'')) (\<lambda>pi_c.
     try_then (int_item pi_c 0) (\<lambda>cx.
     try_then (int_item pi_c 1) (\<lambda>cy.
       Inr \<lparr>a_x = ax, a_y = ay, b_x0 = bx0, b_x1 = bx1,
            b_y0 = by0, b_y1 = by1, c_x = cx, c_y = cy\<rparr>))))))))))))"

text \<open>Lines 60 to 67: the reduction of each coordinate.\<close>

definition reduce_all :: "coordinates \<Rightarrow> coordinates" where
  "reduce_all c =
     \<lparr>a_x = apply_felt_modulo (a_x c), a_y = apply_felt_modulo (a_y c),
      b_x0 = apply_felt_modulo (b_x0 c), b_x1 = apply_felt_modulo (b_x1 c),
      b_y0 = apply_felt_modulo (b_y0 c), b_y1 = apply_felt_modulo (b_y1 c),
      c_x = apply_felt_modulo (c_x c), c_y = apply_felt_modulo (c_y c)\<rparr>"

text \<open>
  Lines 59 and 70 to 89: the two dictionaries \<^verbatim>\<open>values_original\<close> and \<^verbatim>\<open>values_mod\<close>
  have the same keys in the same order, and the loop prints one line per key.
\<close>

definition named_values :: "coordinates \<Rightarrow> (string \<times> int) list" where
  "named_values c =
     [(''a.x'', a_x c), (''a.y'', a_y c),
      (''b.x0'', b_x0 c), (''b.x1'', b_x1 c),
      (''b.y0'', b_y0 c), (''b.y1'', b_y1 c),
      (''c.x'', c_x c), (''c.y'', c_y c)]"

definition report :: "(string \<times> int) \<times> (string \<times> int) \<Rightarrow> line" where
  "report t = (case t of ((name, orig), (name', reduced)) \<Rightarrow>
     if orig \<noteq> reduced then Applied_modulo name orig reduced else Value_OK name)"

definition modulo_log :: "coordinates \<Rightarrow> coordinates \<Rightarrow> line list" where
  "modulo_log values_original values_mod =
     Applying_felt252_modulo # map report (zip (named_values values_original) (named_values values_mod))"

text \<open>Lines 92 to 105: the dictionary that is returned.\<close>

definition garaga_proof_dict :: "coordinates \<Rightarrow> json" where
  "garaga_proof_dict m =
     JObj [(''a'', JObj [(''x'', JStr (py_hex (a_x m))), (''y'', JStr (py_hex (a_y m)))]),
           (''b'', JObj [(''x'', JArr [JStr (py_hex (b_x0 m)), JStr (py_hex (b_x1 m))]),
                         (''y'', JArr [JStr (py_hex (b_y0 m)), JStr (py_hex (b_y1 m))])]),
           (''c'', JObj [(''x'', JStr (py_hex (c_x m))), (''y'', JStr (py_hex (c_y m)))])]"

text \<open>
  The body of the \<^verbatim>\<open>try\<close>. \<open>load\<close> is \<^verbatim>\<open>open\<close> followed by \<^verbatim>\<open>json.load\<close>: the value
  parsed from the file at a path, or the exception raised on the way. Nothing is printed
  before the last step that can raise, so a failure comes with no output.
\<close>

definition convert_try :: "(string \<Rightarrow> exn + json) \<Rightarrow> string \<Rightarrow> exn + (line list \<times> json)" where
  "convert_try load proof_file_path =
     try_then (load proof_file_path) (\<lambda>proof_data.
     try_then (parse_proof proof_data) (\<lambda>values_original.
       let values_mod = reduce_all values_original
       in Inr (modulo_log values_original values_mod, garaga_proof_dict values_mod)))"

text \<open>The two handlers, in the order of the source: \<^verbatim>\<open>KeyError\<close> first, then every other exception.\<close>

definition convert_proof_to_garaga ::
    "(string \<Rightarrow> exn + json) \<Rightarrow> string \<Rightarrow> exn + (line list \<times> json)" where
  "convert_proof_to_garaga load proof_file_path =
     (case convert_try load proof_file_path of
        Inl (KeyError k) \<Rightarrow> Inl (ValueError (Missing_required_field k))
      | Inl e \<Rightarrow> Inl (ValueError (Failed_to_convert e))
      | Inr r \<Rightarrow> Inr r)"

subsection \<open>\<^verbatim>\<open>proof_to_calldata\<close>\<close>

text \<open>\<^verbatim>\<open>int(g[p][q], 16)\<close> and \<^verbatim>\<open>int(g[p][q][i], 16)\<close>.\<close>

definition hex_field :: "json \<Rightarrow> string \<Rightarrow> string \<Rightarrow> exn + int" where
  "hex_field g p q =
     try_then (getitem g (Name p)) (\<lambda>point.
     try_then (getitem point (Name q)) (\<lambda>s. py_int_base s 16))"

definition hex_field2 :: "json \<Rightarrow> string \<Rightarrow> string \<Rightarrow> nat \<Rightarrow> exn + int" where
  "hex_field2 g p q i =
     try_then (getitem g (Name p)) (\<lambda>point.
     try_then (getitem point (Name q)) (\<lambda>pair.
     try_then (getitem pair (Index i)) (\<lambda>s. py_int_base s 16)))"

definition calldata_try :: "json \<Rightarrow> exn + string list" where
  "calldata_try garaga_proof =
     try_then (hex_field garaga_proof ''a'' ''x'') (\<lambda>ax.
     try_then (hex_field garaga_proof ''a'' ''y'') (\<lambda>ay.
     try_then (hex_field2 garaga_proof ''b'' ''x'' 0) (\<lambda>bx0.
     try_then (hex_field2 garaga_proof ''b'' ''x'' 1) (\<lambda>bx1.
     try_then (hex_field2 garaga_proof ''b'' ''y'' 0) (\<lambda>by0.
     try_then (hex_field2 garaga_proof ''b'' ''y'' 1) (\<lambda>by1.
     try_then (hex_field garaga_proof ''c'' ''x'') (\<lambda>cx.
     try_then (hex_field garaga_proof ''c'' ''y'') (\<lambda>cy.
       Inr [py_str ax, py_str ay, py_str bx0, py_str bx1,
            py_str by0, py_str by1, py_str cx, py_str cy]))))))))"

definition proof_to_calldata :: "json \<Rightarrow> exn + string list" where
  "proof_to_calldata garaga_proof =
     (case calldata_try garaga_proof of
        Inl e \<Rightarrow> Inl (ValueError (Failed_to_generate_calldata e))
      | Inr calldata \<Rightarrow> Inr calldata)"

subsection \<open>\<^verbatim>\<open>main\<close>\<close>

text \<open>
  \<^verbatim>\<open>s.replace(old, new)\<close> for a non-empty \<open>old\<close>: every occurrence, left to right.
\<close>

function str_replace :: "string \<Rightarrow> string \<Rightarrow> string \<Rightarrow> string" where
  "str_replace old new [] = []"
| "str_replace old new (c # cs) =
     (if old \<noteq> [] \<and> take (length old) (c # cs) = old
      then new @ str_replace old new (drop (length old) (c # cs))
      else c # str_replace old new cs)"
  by pat_completeness auto
termination
  by (relation "measure (\<lambda>(old, new, s). length s)") auto

text \<open>
  What \<^verbatim>\<open>main\<close> reads from its surroundings: \<^verbatim>\<open>sys.argv\<close>, whether a path exists,
  what loading a path gives, and whether a path can be opened for writing (\<open>Some e\<close> is
  the exception of a failed \<^verbatim>\<open>open\<close>; an opened file is written whole). What it
  leaves behind: the exit code, the lines on standard output (each a JSON document), the
  lines on standard error and the files written.
\<close>

record world =
  argv :: "string list"
  path_exists :: "string \<Rightarrow> bool"
  load_json :: "string \<Rightarrow> exn + json"
  open_for_writing :: "string \<Rightarrow> exn option"

record outcome =
  exit_code :: int
  stdout :: "json list"
  stderr :: "line list"
  files_written :: "(string \<times> json) list"

definition main :: "world \<Rightarrow> outcome" where
  "main w =
     (if length (argv w) < 2
      then \<lparr>exit_code = 1, stdout = [], stderr = [Usage], files_written = []\<rparr>
      else
        let proof_file = argv w ! 1 in
        if \<not> path_exists w proof_file
        then \<lparr>exit_code = 1, stdout = [], stderr = [File_not_found proof_file], files_written = []\<rparr>
        else
          (case convert_proof_to_garaga (load_json w) proof_file of
             Inl e \<Rightarrow>
               \<lparr>exit_code = 1, stdout = [], stderr = [Error e, Traceback e], files_written = []\<rparr>
           | Inr (log, garaga_proof) \<Rightarrow>
               let garaga_file = str_replace ''.json'' ''_garaga.json'' proof_file in
               (case open_for_writing w garaga_file of
                  Some e \<Rightarrow>
                    \<lparr>exit_code = 1, stdout = [], stderr = log @ [Error e, Traceback e],
                     files_written = []\<rparr>
                | None \<Rightarrow>
                    (case proof_to_calldata garaga_proof of
                       Inl e \<Rightarrow>
                         \<lparr>exit_code = 1, stdout = [],
                          stderr = log @ [Garaga_proof_saved garaga_file, Generating_calldata,
                                          Error e, Traceback e],
                          files_written = [(garaga_file, garaga_proof)]\<rparr>
                     | Inr calldata \<Rightarrow>
                         \<lparr>exit_code = 0, stdout = [JArr (map JStr calldata)],
                          stderr = log @ [Garaga_proof_saved garaga_file, Generating_calldata],
                          files_written = [(garaga_file, garaga_proof)]\<rparr>))))"

section \<open>Notions used in the statements\<close>

text \<open>A string made only of digits of base \<open>b\<close>, and the number such a string denotes.\<close>

definition plain_digits :: "nat \<Rightarrow> string \<Rightarrow> bool" where
  "plain_digits b s = (\<forall>c \<in> set s. \<exists>d < b. c = digit_char d)"

fun digits_value :: "nat \<Rightarrow> nat \<Rightarrow> string \<Rightarrow> nat" where
  "digits_value b acc [] = acc"
| "digits_value b acc (c # cs) = digits_value b (acc * b + the (digit_value c)) cs"

text \<open>A loader for a file system in which every path holds the same parsed document.\<close>

definition holds :: "json \<Rightarrow> string \<Rightarrow> exn + json" where
  "holds document path = Inr document"

text \<open>The inputs of the scenarios.\<close>

definition scenario_A :: json where
  "scenario_A =
     JObj [(''protocol'', JStr ''groth16''),
           (''pi_a'', JArr [JStr ''1'', JStr ''2'']),
           (''pi_b'', JArr [JArr [JStr ''3'', JStr ''4''], JArr [JStr ''5'', JStr ''6'']]),
           (''pi_c'', JArr [JStr ''7'', JStr ''8''])]"

text \<open>The eight reads of \<^verbatim>\<open>proof_to_calldata\<close>, in the order of the calldata, and the eight coordinates in the same order.\<close>

definition calldata_fields :: "json \<Rightarrow> (exn + int) list" where
  "calldata_fields g =
     [hex_field g ''a'' ''x'', hex_field g ''a'' ''y'',
      hex_field2 g ''b'' ''x'' 0, hex_field2 g ''b'' ''x'' 1,
      hex_field2 g ''b'' ''y'' 0, hex_field2 g ''b'' ''y'' 1,
      hex_field g ''c'' ''x'', hex_field g ''c'' ''y'']"

definition coordinate_list :: "coordinates \<Rightarrow> int list" where
  "coordinate_list c = [a_x c, a_y c, b_x0 c, b_x1 c, b_y0 c, b_y1 c, c_x c, c_y c]"

definition coordinates_A :: coordinates where
  "coordinates_A = \<lparr>a_x = 1, a_y = 2, b_x0 = 4, b_x1 = 3, b_y0 = 6, b_y1 = 5, c_x = 7, c_y = 8\<rparr>"








definition scenario_C :: json where
  "scenario_C =
     JObj [(''protocol'', JStr ''plonk''),
           (''pi_a'', JArr [JStr ''1'', JStr ''2'']),
           (''pi_b'', JArr [JArr [JStr ''3'', JStr ''4''], JArr [JStr ''5'', JStr ''6'']]),
           (''pi_c'', JArr [JStr ''7'', JStr ''8''])]"




text \<open>A step that returns rather than raises; a point whose coordinates all convert.\<close>

definition succeeds :: "exn + 'a \<Rightarrow> bool" where
  "succeeds r = (case r of Inl e \<Rightarrow> False | Inr v \<Rightarrow> True)"



text \<open>The surroundings of a run on \<^verbatim>\<open>proof.json\<close>: the file exists, holds the given document, and its directory is writable.\<close>

definition script_world :: "json \<Rightarrow> world" where
  "script_world document =
     \<lparr>argv = [''convert_garaga.py'', ''proof.json''],
      path_exists = (\<lambda>path. True),
      load_json = holds document,
      open_for_writing = (\<lambda>path. None)\<rparr>"





text \<open>The lines of standard error that describe a failure.\<close>

fun is_error_description :: "line \<Rightarrow> bool" where
  "is_error_description Usage = True"
| "is_error_description (File_not_found path) = True"
| "is_error_description (Error e) = True"
| "is_error_description other = False"

text \<open>The path of the side file, and the runs in which no step of \<^verbatim>\<open>main\<close> fails: a path argument is given, the path exists, the conversion returns, and the side file can be opened.\<close>

definition garaga_file_of :: "string \<Rightarrow> string" where
  "garaga_file_of proof_file = str_replace ''.json'' ''_garaga.json'' proof_file"

definition all_steps_succeed :: "world \<Rightarrow> bool" where
  "all_steps_succeed w =
     (2 \<le> length (argv w) \<and> path_exists w (argv w ! 1)
      \<and> succeeds (convert_proof_to_garaga (load_json w) (argv w ! 1))
      \<and> open_for_writing w (garaga_file_of (argv w ! 1)) = None)"

definition no_argument :: world where
  "no_argument = (script_world scenario_A)\<lparr>argv := [''convert_garaga.py'']\<rparr>"

definition no_such_file :: world where
  "no_such_file = (script_world scenario_A)\<lparr>path_exists := (\<lambda>path. False)\<rparr>"

definition read_only_directory :: world where
  "read_only_directory = (script_world scenario_A)\<lparr>open_for_writing := (\<lambda>path. Some OSError)\<rparr>"

section \<open>Properties of the field reduction\<close>

lemma STARKNET_FELT_MAX_pos: "0 < STARKNET_FELT_MAX"
  by (simp add: STARKNET_FELT_MAX_def)

text \<open>
  Claim C1. For every non-negative integer \<open>v\<close>, \<open>apply_felt_modulo\<close> returns \<open>v\<close>
  unchanged when \<open>v\<close> is below the field modulus and \<open>v mod STARKNET_FELT_MAX\<close>
  otherwise; hence its result is non-negative, below the modulus, and congruent to \<open>v\<close>
  modulo the modulus.
\<close>

theorem apply_felt_modulo_reduction:
  assumes "0 \<le> v"
  shows "(v < STARKNET_FELT_MAX \<longrightarrow> apply_felt_modulo v = v)
       \<and> (\<not> v < STARKNET_FELT_MAX \<longrightarrow> apply_felt_modulo v = v mod STARKNET_FELT_MAX)
       \<and> 0 \<le> apply_felt_modulo v
       \<and> apply_felt_modulo v < STARKNET_FELT_MAX
       \<and> apply_felt_modulo v mod STARKNET_FELT_MAX = v mod STARKNET_FELT_MAX"
proof -
  have below: "apply_felt_modulo v < STARKNET_FELT_MAX"
    using STARKNET_FELT_MAX_pos by (simp add: apply_felt_modulo_def)
  have nonneg: "0 \<le> apply_felt_modulo v"
    using assms STARKNET_FELT_MAX_pos by (simp add: apply_felt_modulo_def)
  have congr: "apply_felt_modulo v mod STARKNET_FELT_MAX = v mod STARKNET_FELT_MAX"
    by (simp add: apply_felt_modulo_def)
  show ?thesis
    using below nonneg congr by (simp add: apply_felt_modulo_def)
qed

theorem apply_felt_modulo_reduction_witness:
  "apply_felt_modulo 5 = 5
   \<and> apply_felt_modulo (STARKNET_FELT_MAX + 5) = 5
   \<and> apply_felt_modulo BN254_PRIME < STARKNET_FELT_MAX
   \<and> apply_felt_modulo BN254_PRIME = BN254_PRIME mod STARKNET_FELT_MAX"
proof -
  have small: "(0::int) \<le> 5" "(5::int) < STARKNET_FELT_MAX"
    by (simp_all add: STARKNET_FELT_MAX_def)
  have big: "(0::int) \<le> STARKNET_FELT_MAX + 5" "\<not> STARKNET_FELT_MAX + 5 < STARKNET_FELT_MAX"
    by (simp_all add: STARKNET_FELT_MAX_def)
  have prime: "0 \<le> BN254_PRIME" "\<not> BN254_PRIME < STARKNET_FELT_MAX"
    by (simp_all add: BN254_PRIME_def STARKNET_FELT_MAX_def)
  have wrap: "(STARKNET_FELT_MAX + 5) mod STARKNET_FELT_MAX = 5"
    by (simp add: STARKNET_FELT_MAX_def)
  show ?thesis
    using apply_felt_modulo_reduction [OF small(1)] small(2)
      apply_felt_modulo_reduction [OF big(1)] big(2) wrap
      apply_felt_modulo_reduction [OF prime(1)] prime(2)
    by simp
qed

text \<open>
  Claim C10. \<open>apply_felt_modulo\<close> returns every negative integer unchanged, so the result
  for a negative input is negative and is not a canonical field residue; the result lies in
  the range from \<open>0\<close> up to, but excluding, the modulus exactly when the input is
  non-negative.
\<close>

theorem apply_felt_modulo_negative:
  "(v < 0 \<longrightarrow> apply_felt_modulo v = v \<and> apply_felt_modulo v < 0)
   \<and> ((0 \<le> apply_felt_modulo v \<and> apply_felt_modulo v < STARKNET_FELT_MAX) = (0 \<le> v))"
proof -
  have neg: "v < 0 \<Longrightarrow> apply_felt_modulo v = v"
    using STARKNET_FELT_MAX_pos by (simp add: apply_felt_modulo_def)
  have range: "0 \<le> v \<Longrightarrow> 0 \<le> apply_felt_modulo v \<and> apply_felt_modulo v < STARKNET_FELT_MAX"
    using STARKNET_FELT_MAX_pos by (simp add: apply_felt_modulo_def)
  show ?thesis
    using neg range by (cases "v < 0") auto
qed

theorem apply_felt_modulo_negative_witness:
  "apply_felt_modulo (- 5) = - 5 \<and> apply_felt_modulo (- 5) < 0
   \<and> \<not> (0 \<le> apply_felt_modulo (- 5) \<and> apply_felt_modulo (- 5) < STARKNET_FELT_MAX)"
  using apply_felt_modulo_negative [of "- 5"] by simp

section \<open>Text and integers\<close>

lemma digit_value_digit_char: "d < 36 \<Longrightarrow> digit_value (digit_char d) = Some d"
  by (simp add: digit_value_def digit_char_def Let_def)

lemma digit_char_not_underscore: "d < 36 \<Longrightarrow> digit_char d \<noteq> CHR ''_''"
proof
  assume "d < 36" and "digit_char d = CHR ''_''"
  then have "digit_value (CHR ''_'') = Some d"
    using digit_value_digit_char [of d] by simp
  then show False by (simp add: digit_value_def)
qed

lemma plain_digits_to_digits:
  "2 \<le> b \<Longrightarrow> plain_digits b (to_digits b n)"
proof (induction b n rule: to_digits.induct)
  case (1 b n)
  show ?case
  proof (cases "n < b")
    case True
    then show ?thesis by (auto simp add: to_digits.simps [of b n] plain_digits_def)
  next
    case False
    with 1 have "plain_digits b (to_digits b (n div b))" by simp
    moreover have "n mod b < b" using 1(2) by simp
    then have "\<exists>d<b. digit_char (n mod b) = digit_char d" by blast
    ultimately show ?thesis
      using False 1(2) by (auto simp add: to_digits.simps [of b n] plain_digits_def)
  qed
qed

lemma to_digits_nonempty: "to_digits b n \<noteq> []"
  by (subst to_digits.simps) simp

lemma digits_value_append:
  "digits_value b acc (xs @ ys) = digits_value b (digits_value b acc xs) ys"
  by (induction xs arbitrary: acc) auto

lemma scan_plain_digits:
  "b \<le> 36 \<Longrightarrow> plain_digits b s \<Longrightarrow> scan_digits b acc False s = Some (digits_value b acc s)"
proof (induction s arbitrary: acc)
  case Nil
  then show ?case by simp
next
  case (Cons c cs)
  from Cons.prems obtain d where d: "d < b" "c = digit_char d"
    by (auto simp add: plain_digits_def)
  have rest: "plain_digits b cs" using Cons.prems by (simp add: plain_digits_def)
  have "d < 36" using d(1) Cons.prems(1) by simp
  then have "c \<noteq> CHR ''_''" "digit_value c = Some d"
    using d(2) by (simp_all add: digit_char_not_underscore digit_value_digit_char)
  then show ?case using Cons.IH [OF Cons.prems(1) rest] d(1) by simp
qed

lemma digits_value_to_digits:
  "2 \<le> b \<Longrightarrow> b \<le> 36 \<Longrightarrow> digits_value b 0 (to_digits b n) = n"
proof (induction b n rule: to_digits.induct)
  case (1 b n)
  show ?case
  proof (cases "n < b")
    case True
    then have "n < 36" using 1(3) by simp
    then show ?thesis using True
      by (simp add: to_digits.simps [of b n] digit_value_digit_char)
  next
    case False
    have "n mod b < b" using 1(2) by simp
    then have "n mod b < 36" using 1(3) by simp
    then show ?thesis using False 1
      by (simp add: to_digits.simps [of b n] digits_value_append digit_value_digit_char)
  qed
qed

lemma parse_to_digits:
  assumes "2 \<le> b" "b \<le> 36"
  shows "parse_digits b (to_digits b n) = Some n"
proof -
  obtain c cs where s: "to_digits b n = c # cs"
    using to_digits_nonempty [of b n] by (cases "to_digits b n") auto
  have pd: "plain_digits b (c # cs)" using plain_digits_to_digits [OF assms(1), of n] s by simp
  then obtain d where "d < b" "c = digit_char d" by (auto simp add: plain_digits_def)
  then have "c \<noteq> CHR ''_''" using assms(2) by (simp add: digit_char_not_underscore)
  then show ?thesis
    using scan_plain_digits [OF assms(2) pd, of 0] digits_value_to_digits [OF assms, of n] s
    by (simp add: parse_digits_def)
qed

lemma digit_value_not_space: "digit_value c = Some d \<Longrightarrow> \<not> py_isspace c"
  by (auto simp add: digit_value_def py_isspace_def Let_def split: if_splits)

lemma digit_value_not_sign:
  "digit_value c = Some d \<Longrightarrow> c \<noteq> CHR ''-'' \<and> c \<noteq> CHR ''+'' \<and> c \<noteq> CHR ''_''"
  by (auto simp add: digit_value_def)

lemma strip_id:
  assumes "s \<noteq> []" "\<not> py_isspace (hd s)" "\<not> py_isspace (last s)"
  shows "strip s = s"
proof -
  have front: "dropWhile py_isspace s = s"
    using assms(1,2) by (cases s) auto
  have "rev s \<noteq> []" "\<not> py_isspace (hd (rev s))"
    using assms(1,3) by (simp_all add: hd_rev)
  then have rear: "dropWhile py_isspace (rev s) = rev s"
    by (cases "rev s") auto
  show ?thesis by (simp add: strip_def front rear)
qed

lemma to_digits_shape:
  assumes "2 \<le> b" "b \<le> 36"
  obtains c cs where "to_digits b n = c # cs"
    and "\<exists>d. digit_value c = Some d" and "\<exists>d. digit_value (last (c # cs)) = Some d"
proof -
  obtain c cs where s: "to_digits b n = c # cs"
    using to_digits_nonempty [of b n] by (cases "to_digits b n") auto
  have pd: "plain_digits b (c # cs)" using plain_digits_to_digits [OF assms(1), of n] s by simp
  have "\<exists>d. digit_value x = Some d" if "x \<in> set (c # cs)" for x
  proof -
    from pd that obtain d where "d < b" "x = digit_char d" by (auto simp add: plain_digits_def)
    then show ?thesis using assms(2) digit_value_digit_char [of d] by auto
  qed
  then have "\<exists>d. digit_value c = Some d" "\<exists>d. digit_value (last (c # cs)) = Some d"
    using last_in_set [of "c # cs"] by auto
  then show ?thesis using s that by blast
qed


lemma int_of_string_py_hex: "int_of_string 16 (py_hex n) = Some n"
proof -
  obtain c cs where s: "to_digits 16 (nat \<bar>n\<bar>) = c # cs"
    and c: "\<exists>d. digit_value c = Some d" and l: "\<exists>d. digit_value (last (c # cs)) = Some d"
    by (rule to_digits_shape [of 16 "nat \<bar>n\<bar>"]) simp_all
  have parse: "parse_digits 16 (c # cs) = Some (nat \<bar>n\<bar>)"
    using parse_to_digits [of 16 "nat \<bar>n\<bar>"] s by simp
  have nosp: "\<not> py_isspace (last (c # cs))"
    using l digit_value_not_space by blast
  have nous: "c \<noteq> CHR ''_''"
    using c digit_value_not_sign by blast
  have skip: "skip_base_prefix 16 (CHR ''0'' # CHR ''x'' # c # cs) = c # cs"
    using nous by (simp add: skip_base_prefix_def)
  show ?thesis
  proof (cases "n < 0")
    case True
    then have str: "py_hex n = CHR ''-'' # CHR ''0'' # CHR ''x'' # c # cs"
      using s by (simp add: py_hex_def abs_if)
    have "strip (CHR ''-'' # CHR ''0'' # CHR ''x'' # c # cs) = CHR ''-'' # CHR ''0'' # CHR ''x'' # c # cs"
      using nosp by (intro strip_id) (simp_all add: py_isspace_def)
    then show ?thesis
      using True parse skip by (simp add: int_of_string_def str)
  next
    case False
    then have str: "py_hex n = CHR ''0'' # CHR ''x'' # c # cs"
      using s by (simp add: py_hex_def abs_if)
    have "strip (CHR ''0'' # CHR ''x'' # c # cs) = CHR ''0'' # CHR ''x'' # c # cs"
      using nosp by (intro strip_id) (simp_all add: py_isspace_def)
    then show ?thesis
      using False parse skip by (simp add: int_of_string_def str)
  qed
qed

section \<open>Conversion and calldata\<close>

lemma try_then_Inr [simp]: "try_then (Inr v) f = f v"
  by (simp add: try_then_def)

lemma try_then_Inl [simp]: "try_then (Inl e) f = Inl e"
  by (simp add: try_then_def)

lemma try_then_eq_Inr: "try_then r f = Inr y \<longleftrightarrow> (\<exists>v. r = Inr v \<and> f v = Inr y)"
  by (cases r) simp_all

lemma convert_try_Inr:
  "convert_try load p = Inr (log, g) \<longleftrightarrow>
     (\<exists>d c. load p = Inr d \<and> parse_proof d = Inr c
        \<and> log = modulo_log c (reduce_all c) \<and> g = garaga_proof_dict (reduce_all c))"
  by (auto simp add: convert_try_def try_then_eq_Inr Let_def)

lemma convert_Inr:
  "convert_proof_to_garaga load p = Inr (log, g) \<longleftrightarrow>
     (\<exists>d c. load p = Inr d \<and> parse_proof d = Inr c
        \<and> log = modulo_log c (reduce_all c) \<and> g = garaga_proof_dict (reduce_all c))"
proof -
  have "convert_proof_to_garaga load p = Inr (log, g) \<longleftrightarrow> convert_try load p = Inr (log, g)"
    by (simp add: convert_proof_to_garaga_def split: sum.splits exn.splits)
  then show ?thesis by (simp add: convert_try_Inr)
qed

lemma calldata_fields_dict:
  "calldata_fields (garaga_proof_dict m) = map Inr (coordinate_list m)"
  by (simp add: calldata_fields_def garaga_proof_dict_def coordinate_list_def
      hex_field_def hex_field2_def int_of_string_py_hex)

lemma calldata_try_fields:
  assumes "calldata_fields g = map Inr vs"
  shows "calldata_try g = Inr (map py_str vs)"
proof -
  have "length (calldata_fields g) = 8"
    by (simp add: calldata_fields_def)
  then have "length vs = 8"
    by (simp add: assms)
  then obtain v1 v2 v3 v4 v5 v6 v7 v8 where vs: "vs = [v1, v2, v3, v4, v5, v6, v7, v8]"
    by (auto simp add: length_Suc_conv eval_nat_numeral)
  from assms show ?thesis
    by (simp add: vs calldata_fields_def calldata_try_def)
qed

lemma proof_to_calldata_fields:
  "calldata_fields g = map Inr vs \<Longrightarrow> proof_to_calldata g = Inr (map py_str vs)"
  by (simp add: proof_to_calldata_def calldata_try_fields)


lemma convert_parse:
  assumes "load p = Inr d" "parse_proof d = Inr c"
  shows "convert_proof_to_garaga load p
         = Inr (modulo_log c (reduce_all c), garaga_proof_dict (reduce_all c))"
  using assms by (simp add: convert_Inr)

lemma parse_scenario_A: "parse_proof scenario_A = Inr coordinates_A"
  by code_simp

lemma reduce_coordinates_A: "reduce_all coordinates_A = coordinates_A"
  by (simp add: reduce_all_def coordinates_A_def apply_felt_modulo_def STARKNET_FELT_MAX_def)

lemma log_coordinates_A:
  "modulo_log coordinates_A coordinates_A =
     [Applying_felt252_modulo, Value_OK ''a.x'', Value_OK ''a.y'', Value_OK ''b.x0'',
      Value_OK ''b.x1'', Value_OK ''b.y0'', Value_OK ''b.y1'', Value_OK ''c.x'', Value_OK ''c.y'']"
  by (simp add: modulo_log_def named_values_def report_def)

lemma py_str_coordinates_A:
  "map py_str (coordinate_list coordinates_A) = [''1'', ''2'', ''4'', ''3'', ''6'', ''5'', ''7'', ''8'']"
  by code_simp

text \<open>
  Claim C4. On the input of scenario A the conversion returns a proof, every coordinate
  is reported unchanged by the reduction, and the calldata of that proof is
  \<open>["1", "2", "4", "3", "6", "5", "7", "8"]\<close>.
\<close>

theorem scenario_A_calldata:
  "convert_proof_to_garaga (holds scenario_A) p
     = Inr ([Applying_felt252_modulo, Value_OK ''a.x'', Value_OK ''a.y'', Value_OK ''b.x0'',
             Value_OK ''b.x1'', Value_OK ''b.y0'', Value_OK ''b.y1'', Value_OK ''c.x'',
             Value_OK ''c.y''],
            garaga_proof_dict coordinates_A)
   \<and> reduce_all coordinates_A = coordinates_A
   \<and> proof_to_calldata (garaga_proof_dict coordinates_A)
     = Inr [''1'', ''2'', ''4'', ''3'', ''6'', ''5'', ''7'', ''8'']"
proof -
  have "holds scenario_A p = Inr scenario_A"
    by (simp add: holds_def)
  then have "convert_proof_to_garaga (holds scenario_A) p
      = Inr (modulo_log coordinates_A (reduce_all coordinates_A),
             garaga_proof_dict (reduce_all coordinates_A))"
    using parse_scenario_A by (rule convert_parse)
  moreover have "proof_to_calldata (garaga_proof_dict coordinates_A)
      = Inr (map py_str (coordinate_list coordinates_A))"
    by (rule proof_to_calldata_fields) (rule calldata_fields_dict)
  ultimately show ?thesis
    by (simp add: reduce_coordinates_A log_coordinates_A py_str_coordinates_A)
qed




section \<open>Hexadecimal encoding\<close>

















section \<open>Failures of the conversion\<close>

lemma succeeds_Inr: "succeeds r \<longleftrightarrow> (\<exists>v. r = Inr v)"
  by (cases r) (simp_all add: succeeds_def)

lemma convert_fails:
  assumes "load p = Inr d" and "parse_proof d = Inl e"
  shows "convert_proof_to_garaga load p
         = Inl (ValueError (case e of KeyError k \<Rightarrow> Missing_required_field k
                                    | _ \<Rightarrow> Failed_to_convert e))"
  using assms by (cases e) (simp_all add: convert_proof_to_garaga_def convert_try_def)

lemma parse_proof_protocol:
  assumes "dict_get d ''protocol'' \<noteq> Inr (JStr ''groth16'')"
  shows "parse_proof d
         = Inl (case dict_get d ''protocol'' of Inr v \<Rightarrow> ValueError (Expected_groth16 v) | Inl e \<Rightarrow> e)"
proof (cases "dict_get d ''protocol''")
  case (Inl e)
  then show ?thesis by (simp add: parse_proof_def)
next
  case (Inr v)
  with assms have "v \<noteq> JStr ''groth16''" by simp
  with Inr show ?thesis by (simp add: parse_proof_def)
qed

lemma dict_get_error: "dict_get d k = Inl e \<Longrightarrow> e = AttributeError"
  by (cases d) (simp_all add: dict_get_def)

lemma main_convert_fails:
  assumes "2 \<le> length (argv w)" and "path_exists w (argv w ! 1)"
    and "convert_proof_to_garaga (load_json w) (argv w ! 1) = Inl e"
  shows "main w = \<lparr>exit_code = 1, stdout = [], stderr = [Error e, Traceback e], files_written = []\<rparr>"
  using assms by (simp add: main_def Let_def)

text \<open>
  Claim C6 does not hold as stated: the \<^verbatim>\<open>ValueError\<close> raised by the protocol check
  is raised inside the \<^verbatim>\<open>try\<close> and caught by the handler for every exception, so the
  error that leaves the function is the conversion failure wrapping it.
\<close>

theorem protocol_mismatch_counterexample:
  "convert_proof_to_garaga (holds scenario_C) ''proof.json''
     = Inl (ValueError (Failed_to_convert (ValueError (Expected_groth16 (JStr ''plonk'')))))
   \<and> convert_proof_to_garaga (holds scenario_C) ''proof.json''
     \<noteq> Inl (ValueError (Expected_groth16 (JStr ''plonk'')))"
proof -
  have load: "holds scenario_C ''proof.json'' = Inr scenario_C"
    by (simp add: holds_def)
  have "parse_proof scenario_C = Inl (ValueError (Expected_groth16 (JStr ''plonk'')))"
    by (simp add: parse_proof_def scenario_C_def dict_get_def)
  with load have "convert_proof_to_garaga (holds scenario_C) ''proof.json''
      = Inl (ValueError (Failed_to_convert (ValueError (Expected_groth16 (JStr ''plonk'')))))"
    by (simp add: convert_fails)
  then show ?thesis by simp
qed

text \<open>
  Claim C6, amended. When the loaded document has no protocol \<open>groth16\<close>, the
  conversion fails with "Failed to convert proof" wrapping its cause: for an object the
  cause is "Expected groth16 protocol" carrying the actual protocol value (\<^verbatim>\<open>None\<close>
  when the field is absent), for any other document it is the \<^verbatim>\<open>AttributeError\<close> of
  \<^verbatim>\<open>.get\<close>. No result is returned, the process exits with code 1, writes nothing to
  standard output and writes no file.
\<close>

theorem protocol_mismatch:
  assumes "load_json w p = Inr d" and "dict_get d ''protocol'' \<noteq> Inr (JStr ''groth16'')"
    and "2 \<le> length (argv w)" and "argv w ! 1 = p" and "path_exists w p"
  shows "convert_proof_to_garaga (load_json w) p
           = Inl (ValueError (Failed_to_convert
                   (case dict_get d ''protocol'' of
                      Inr v \<Rightarrow> ValueError (Expected_groth16 v)
                    | Inl e \<Rightarrow> e)))
         \<and> exit_code (main w) = 1 \<and> stdout (main w) = [] \<and> files_written (main w) = []"
proof -
  let ?cause = "case dict_get d ''protocol'' of Inr v \<Rightarrow> ValueError (Expected_groth16 v) | Inl e \<Rightarrow> e"
  have parse: "parse_proof d = Inl ?cause"
    using assms(2) by (rule parse_proof_protocol)
  have "\<forall>k. ?cause \<noteq> KeyError k"
    by (cases "dict_get d ''protocol''") (auto dest: dict_get_error)
  then have "(case ?cause of KeyError k \<Rightarrow> Missing_required_field k | _ \<Rightarrow> Failed_to_convert ?cause)
      = Failed_to_convert ?cause"
    by (cases ?cause) simp_all
  with convert_fails [of "load_json w" p d ?cause, OF assms(1) parse]
  have conv: "convert_proof_to_garaga (load_json w) p = Inl (ValueError (Failed_to_convert ?cause))"
    by simp
  have "main w = \<lparr>exit_code = 1, stdout = [],
      stderr = [Error (ValueError (Failed_to_convert ?cause)), Traceback (ValueError (Failed_to_convert ?cause))],
      files_written = []\<rparr>"
    using assms(3,5) conv unfolding assms(4) [symmetric] by (rule main_convert_fails)
  with conv show ?thesis by simp
qed

theorem protocol_mismatch_witness:
  "convert_proof_to_garaga (load_json (script_world scenario_C)) ''proof.json''
     = Inl (ValueError (Failed_to_convert (ValueError (Expected_groth16 (JStr ''plonk'')))))
   \<and> exit_code (main (script_world scenario_C)) = 1
   \<and> stdout (main (script_world scenario_C)) = []
   \<and> files_written (main (script_world scenario_C)) = []"
proof -
  have "load_json (script_world scenario_C) ''proof.json'' = Inr scenario_C"
    by (simp add: script_world_def holds_def)
  moreover have "dict_get scenario_C ''protocol'' = Inr (JStr ''plonk'')"
    by (simp add: scenario_C_def dict_get_def)
  moreover have "2 \<le> length (argv (script_world scenario_C))"
    "argv (script_world scenario_C) ! 1 = ''proof.json''"
    "path_exists (script_world scenario_C) ''proof.json''"
    by (simp_all add: script_world_def)
  ultimately show ?thesis
    using protocol_mismatch [of "script_world scenario_C" "''proof.json''" scenario_C] by simp
qed












section \<open>Calldata projection\<close>



section \<open>The process\<close>

lemma converted_calldata:
  assumes "convert_proof_to_garaga load p = Inr (log, g)"
  shows "\<exists>calldata. proof_to_calldata g = Inr calldata \<and> length calldata = 8"
proof -
  from assms obtain c where g: "g = garaga_proof_dict (reduce_all c)"
    by (auto simp add: convert_Inr)
  have "proof_to_calldata g = Inr (map py_str (coordinate_list (reduce_all c)))"
    unfolding g by (rule proof_to_calldata_fields) (rule calldata_fields_dict)
  moreover have "length (map py_str (coordinate_list (reduce_all c))) = 8"
    by (simp add: coordinate_list_def)
  ultimately show ?thesis by blast
qed

lemma main_usage:
  assumes "length (argv w) < 2"
  shows "main w = \<lparr>exit_code = 1, stdout = [], stderr = [Usage], files_written = []\<rparr>"
  using assms by (simp add: main_def)

lemma main_not_found:
  assumes "2 \<le> length (argv w)" and "\<not> path_exists w (argv w ! 1)"
  shows "main w = \<lparr>exit_code = 1, stdout = [], stderr = [File_not_found (argv w ! 1)],
                   files_written = []\<rparr>"
  using assms by (simp add: main_def Let_def)

lemma main_write_fails:
  assumes "2 \<le> length (argv w)" and "path_exists w (argv w ! 1)"
    and "convert_proof_to_garaga (load_json w) (argv w ! 1) = Inr (log, g)"
    and "open_for_writing w (garaga_file_of (argv w ! 1)) = Some e"
  shows "main w = \<lparr>exit_code = 1, stdout = [], stderr = log @ [Error e, Traceback e],
                   files_written = []\<rparr>"
  using assms by (simp add: main_def Let_def garaga_file_of_def)

lemma main_success:
  assumes "2 \<le> length (argv w)" and "path_exists w (argv w ! 1)"
    and "convert_proof_to_garaga (load_json w) (argv w ! 1) = Inr (log, g)"
    and "open_for_writing w (garaga_file_of (argv w ! 1)) = None"
    and "proof_to_calldata g = Inr calldata"
  shows "main w = \<lparr>exit_code = 0, stdout = [JArr (map JStr calldata)],
                   stderr = log @ [Garaga_proof_saved (garaga_file_of (argv w ! 1)), Generating_calldata],
                   files_written = [(garaga_file_of (argv w ! 1), g)]\<rparr>"
  using assms by (simp add: main_def Let_def garaga_file_of_def)

lemma main_failure:
  assumes "\<not> all_steps_succeed w"
  shows "exit_code (main w) = 1 \<and> stdout (main w) = [] \<and> files_written (main w) = []
         \<and> list_ex is_error_description (stderr (main w))"
proof (cases "length (argv w) < 2")
  case True
  then show ?thesis by (simp add: main_usage)
next
  case args: False
  show ?thesis
  proof (cases "path_exists w (argv w ! 1)")
    case False
    with args show ?thesis by (simp add: main_not_found)
  next
    case found: True
    show ?thesis
    proof (cases "convert_proof_to_garaga (load_json w) (argv w ! 1)")
      case (Inl e)
      with args found show ?thesis by (simp add: main_convert_fails)
    next
      case (Inr r)
      obtain log g where r: "r = (log, g)" by (cases r)
      from assms args found Inr obtain e
        where "open_for_writing w (garaga_file_of (argv w ! 1)) = Some e"
        by (auto simp add: all_steps_succeed_def succeeds_def)
      with args found Inr r show ?thesis by (simp add: main_write_fails)
    qed
  qed
qed

lemma main_all:
  assumes "all_steps_succeed w"
  shows "\<exists>log g calldata.
           convert_proof_to_garaga (load_json w) (argv w ! 1) = Inr (log, g)
           \<and> proof_to_calldata g = Inr calldata \<and> length calldata = 8
           \<and> exit_code (main w) = 0 \<and> stdout (main w) = [JArr (map JStr calldata)]"
proof -
  from assms obtain log g
    where conv: "convert_proof_to_garaga (load_json w) (argv w ! 1) = Inr (log, g)"
    by (auto simp add: all_steps_succeed_def succeeds_Inr)
  from converted_calldata [OF conv] obtain calldata
    where calldata: "proof_to_calldata g = Inr calldata" "length calldata = 8"
    by (elim exE conjE)
  from assms have "2 \<le> length (argv w)" "path_exists w (argv w ! 1)"
    "open_for_writing w (garaga_file_of (argv w ! 1)) = None"
    by (simp_all add: all_steps_succeed_def)
  from main_success [OF this(1,2) conv this(3) calldata(1)]
  have "exit_code (main w) = 0 \<and> stdout (main w) = [JArr (map JStr calldata)]"
    by simp
  with conv calldata show ?thesis by (intro exI conjI) simp_all
qed

text \<open>
  Claim C9. When any step fails (no path argument, the path does not exist, the
  conversion fails, or the side file cannot be opened), the process exits with code 1,
  standard error holds a description of the error, standard output is empty and no file is
  written. Otherwise it exits with code 0 and standard output is the one array of the eight
  calldata strings. A failure of \<open>proof_to_calldata\<close> after a conversion that returned
  cannot happen.
\<close>

theorem main_all_or_nothing:
  "(\<not> all_steps_succeed w \<longrightarrow>
      exit_code (main w) = 1 \<and> stdout (main w) = [] \<and> files_written (main w) = []
      \<and> list_ex is_error_description (stderr (main w)))
   \<and> (all_steps_succeed w \<longrightarrow>
      (\<exists>log g calldata.
         convert_proof_to_garaga (load_json w) (argv w ! 1) = Inr (log, g)
         \<and> proof_to_calldata g = Inr calldata \<and> length calldata = 8
         \<and> exit_code (main w) = 0 \<and> stdout (main w) = [JArr (map JStr calldata)]))"
proof (rule conjI)
  show "\<not> all_steps_succeed w \<longrightarrow>
      exit_code (main w) = 1 \<and> stdout (main w) = [] \<and> files_written (main w) = []
      \<and> list_ex is_error_description (stderr (main w))"
    by (rule impI) (rule main_failure)
  show "all_steps_succeed w \<longrightarrow>
      (\<exists>log g calldata.
         convert_proof_to_garaga (load_json w) (argv w ! 1) = Inr (log, g)
         \<and> proof_to_calldata g = Inr calldata \<and> length calldata = 8
         \<and> exit_code (main w) = 0 \<and> stdout (main w) = [JArr (map JStr calldata)])"
    by (rule impI) (rule main_all)
qed

lemma convert_scenario_A:
  "convert_proof_to_garaga (holds scenario_A) p
     = Inr (modulo_log coordinates_A coordinates_A, garaga_proof_dict coordinates_A)"
proof -
  have "holds scenario_A p = Inr scenario_A"
    by (simp add: holds_def)
  then have "convert_proof_to_garaga (holds scenario_A) p
      = Inr (modulo_log coordinates_A (reduce_all coordinates_A),
             garaga_proof_dict (reduce_all coordinates_A))"
    using parse_scenario_A by (rule convert_parse)
  then show ?thesis by (simp add: reduce_coordinates_A)
qed

lemma convert_scenario_C:
  "convert_proof_to_garaga (holds scenario_C) p
     = Inl (ValueError (Failed_to_convert (ValueError (Expected_groth16 (JStr ''plonk'')))))"
proof -
  have "holds scenario_C p = Inr scenario_C"
    by (simp add: holds_def)
  moreover have "parse_proof scenario_C = Inl (ValueError (Expected_groth16 (JStr ''plonk'')))"
    by (simp add: parse_proof_def scenario_C_def dict_get_def)
  ultimately show ?thesis by (simp add: convert_fails)
qed

theorem main_all_or_nothing_witness:
  "exit_code (main no_argument) = 1 \<and> stdout (main no_argument) = []
   \<and> exit_code (main no_such_file) = 1 \<and> stdout (main no_such_file) = []
   \<and> exit_code (main (script_world scenario_C)) = 1 \<and> stdout (main (script_world scenario_C)) = []
   \<and> exit_code (main read_only_directory) = 1 \<and> stdout (main read_only_directory) = []
   \<and> files_written (main read_only_directory) = []
   \<and> (\<exists>log g calldata.
         convert_proof_to_garaga (load_json (script_world scenario_A))
             (argv (script_world scenario_A) ! 1) = Inr (log, g)
         \<and> proof_to_calldata g = Inr calldata \<and> length calldata = 8
         \<and> exit_code (main (script_world scenario_A)) = 0
         \<and> stdout (main (script_world scenario_A)) = [JArr (map JStr calldata)])"
proof -
  have "\<not> all_steps_succeed no_argument"
    by (simp add: all_steps_succeed_def no_argument_def script_world_def)
  moreover have "\<not> all_steps_succeed no_such_file"
    by (simp add: all_steps_succeed_def no_such_file_def script_world_def)
  moreover have "\<not> all_steps_succeed (script_world scenario_C)"
    by (simp add: all_steps_succeed_def script_world_def convert_scenario_C succeeds_def)
  moreover have "\<not> all_steps_succeed read_only_directory"
    by (simp add: all_steps_succeed_def read_only_directory_def script_world_def)
  moreover have "all_steps_succeed (script_world scenario_A)"
    by (simp add: all_steps_succeed_def script_world_def convert_scenario_A succeeds_def)
  ultimately show ?thesis
    using main_all_or_nothing [of no_argument] main_all_or_nothing [of no_such_file]
      main_all_or_nothing [of "script_world scenario_C"]
      main_all_or_nothing [of read_only_directory]
      main_all_or_nothing [of "script_world scenario_A"]
    by simp
qed

end
